theory Spec2Isabelle
  imports Complex_Main "HOL-Library.Sublist" "HOL-Library.AList"
begin

section \<open>Strings\<close>

text \<open>
  A JavaScript string is modelled by the list of its code units. What the engine does
  with them is not written out here: \<open>toLowerCase\<close>, \<open>toUpperCase\<close> and \<open>trim\<close> of
  \<open>String.prototype\<close> and the white space class \<open>\s\<close> of regular expressions are
  parameters of the model, so that every theorem holds for the engine's own Unicode
  tables.
\<close>

record engine =
  toLowerCase :: "string \<Rightarrow> string"
  toUpperCase :: "string \<Rightarrow> string"
  trim :: "string \<Rightarrow> string"
  is_space :: "char \<Rightarrow> bool"


text \<open>
  The \<open>i\<close> flag compares characters after \<open>Canonicalize\<close>, which never maps a
  character outside ASCII to one inside. Against a pattern of ASCII characters a
  character therefore matches exactly when it is the same ASCII character up to the
  case of the 26 letters: both sides are compared after these letters are folded to one
  case.
\<close>

definition upper_letters :: string where
  "upper_letters = ''ABCDEFGHIJKLMNOPQRSTUVWXYZ''"

definition lower_letters :: string where
  "lower_letters = ''abcdefghijklmnopqrstuvwxyz''"

definition lower_char :: "char \<Rightarrow> char" where
  "lower_char c = (case map_of (zip upper_letters lower_letters) c of None \<Rightarrow> c | Some d \<Rightarrow> d)"

definition canonicalize :: "string \<Rightarrow> string" where
  "canonicalize s = map lower_char s"

text \<open>\<open>s.includes(p)\<close>: \<open>p\<close> occurs in \<open>s\<close> as a contiguous substring.\<close>

fun str_includes :: "string \<Rightarrow> string \<Rightarrow> bool" where
  "str_includes [] p = (p = [])"
| "str_includes (c # cs) p = (prefix p (c # cs) \<or> str_includes cs p)"

text \<open>
  A match of the literal ASCII pattern \<open>p\<close> under the \<open>i\<close> flag at the start of \<open>s\<close>.
\<close>

definition ci_prefix :: "string \<Rightarrow> string \<Rightarrow> bool" where
  "ci_prefix p s = prefix (canonicalize p) (canonicalize s)"

text \<open>
  \<open>s.replace(new RegExp(p, 'gi'), r)\<close> for a pattern \<open>p\<close> of ASCII characters without
  regular expression metacharacters and a replacement \<open>r\<close> without \<open>$\<close>: the matches are found from left
  to right and do not overlap; the empty pattern matches at every position.
\<close>

function replace_gi :: "string \<Rightarrow> string \<Rightarrow> string \<Rightarrow> string" where
  "replace_gi p r [] = (if p = [] then r else [])"
| "replace_gi p r (c # cs) =
     (if p = [] then r @ c # replace_gi p r cs
      else if ci_prefix p (c # cs) then r @ replace_gi p r (drop (length p) (c # cs))
      else c # replace_gi p r cs)"
  by pat_completeness auto
termination
  by (relation "measure (\<lambda>(p, r, s). length s)") auto

section \<open>JSON values\<close>

text \<open>
  A parsed JSON value; an object keeps its properties in insertion order. A property
  read yields \<open>None\<close> where JavaScript yields \<open>undefined\<close>.
\<close>

datatype json =
    JNull
  | JBool bool
  | JNum real
  | JStr string
  | JArr "json list"
  | JObj "(string \<times> json) list"

type_synonym obj = "(string \<times> json) list"

text \<open>The truthiness test behind \<open>!x\<close>, \<open>x || y\<close> and \<open>if (x)\<close>.\<close>

fun truthy :: "json option \<Rightarrow> bool" where
  "truthy None = False"
| "truthy (Some JNull) = False"
| "truthy (Some (JBool b)) = b"
| "truthy (Some (JNum n)) = (n \<noteq> 0)"
| "truthy (Some (JStr s)) = (s \<noteq> [])"
| "truthy (Some (JArr xs)) = True"
| "truthy (Some (JObj kvs)) = True"

text \<open>Reading a property of a response body.\<close>

fun field :: "json \<Rightarrow> string \<Rightarrow> json option" where
  "field (JObj kvs) k = map_of kvs k"
| "field v k = None"

text \<open>What the inner \<open>try\<close> block can throw; its \<open>catch\<close> only logs the message.\<close>

datatype exn = SyntaxError | TypeError | Error string

section \<open>Collaborators of the edge functions\<close>

record safety_rule =
  rule_id :: string
  keyword :: string
  category :: string
  rule_severity :: string
  override_text :: string

text \<open>
  The reply of the chat completion endpoint, as the handler observes it: \<open>fetch\<close> rejects,
  the status is not a success, reading the body or \<open>aiData.choices[0]\<close> throws, or the
  expression \<open>aiData.choices[0]?.message?.content\<close> has a value (\<open>None\<close> for
  \<open>undefined\<close>).
\<close>

datatype ai_reply =
    Fetch_rejects string
  | Not_ok string
  | Body_rejects string
  | Content "json option"

text \<open>
  The object literal given to \<open>from('patient_queries').insert\<close>: its properties in
  order, a property whose value is \<open>undefined\<close> holding \<open>None\<close>.
\<close>

type_synonym patient_query = "(string \<times> json option) list"

text \<open>
  The environment of one request: the rows of \<open>safety_rules\<close> (\<open>None\<close> when the query
  gives \<open>data: null\<close>), the text of the \<open>emergency\<close> row of \<open>guidance_content\<close> for a
  language (\<open>None\<close> when \<open>single()\<close> gives no row), and the model behind the chat
  completion endpoint, given the language, the symptoms and the prescription text that
  make up the prompt.
\<close>

record env =
  safety_rules :: "safety_rule list option"
  guidance_content :: "string \<Rightarrow> string option"
  ai :: "string \<Rightarrow> string \<Rightarrow> string \<Rightarrow> ai_reply"

datatype event =
    Select_safety_rules
  | Select_guidance string
  | Fetch_completion string string string
  | Insert_patient_query patient_query

datatype response = Response (status_of: nat) (body_of: json)

section \<open>The analyze-symptoms function\<close>

definition PROHIBITED_MEDICATION_TYPES :: "string list" where
  "PROHIBITED_MEDICATION_TYPES =
     [''antibiotic'', ''steroid'', ''injection'', ''insulin'',
      ''controlled substance'', ''prescription drug'', ''narcotic'',
      ''immunosuppressant'', ''chemotherapy'', ''antiviral prescription'']"

definition validSeverities :: "string list" where
  "validSeverities = [''LOW'', ''MODERATE'', ''HIGH'', ''CRITICAL'']"

text \<open>\<open>!symptoms || symptoms.trim().length === 0\<close>\<close>

definition symptoms_missing :: "engine \<Rightarrow> string option \<Rightarrow> bool" where
  "symptoms_missing js symptoms =
     (case symptoms of None \<Rightarrow> True | Some s \<Rightarrow> s = [] \<or> length (trim js s) = 0)"

definition fullText :: "engine \<Rightarrow> string \<Rightarrow> string \<Rightarrow> string" where
  "fullText js symptoms prescriptionText =
     toLowerCase js (symptoms @ '' '' @ prescriptionText)"

text \<open>\<open>rules?.find(rule => fullText.includes(rule.keyword.toLowerCase()))\<close>\<close>

definition matchedRule ::
  "engine \<Rightarrow> safety_rule list option \<Rightarrow> string \<Rightarrow> safety_rule option" where
  "matchedRule js rules ft =
     (case rules of
        None \<Rightarrow> None
      | Some rs \<Rightarrow> find (\<lambda>rule. str_includes ft (toLowerCase js (keyword rule))) rs)"

text \<open>\<open>guidanceData?.text || matchedRule.override_text\<close>\<close>

definition override_reason :: "string option \<Rightarrow> safety_rule \<Rightarrow> string" where
  "override_reason guidanceData rule =
     (case guidanceData of
        None \<Rightarrow> override_text rule
      | Some t \<Rightarrow> if t \<noteq> [] then t else override_text rule)"

definition override_result :: "string option \<Rightarrow> safety_rule \<Rightarrow> obj" where
  "override_result guidanceData rule =
     [(''disease_category'', JStr (category rule)),
      (''severity'', JStr ''CRITICAL''),
      (''recommendation'', JStr ''Emergency medical attention''),
      (''reason'', JStr (override_reason guidanceData rule)),
      (''safe_guidance'', JNull),
      (''is_override'', JBool True)]"

text \<open>The record logged for a result.\<close>

definition query_record :: "string \<Rightarrow> string \<Rightarrow> string \<Rightarrow> obj \<Rightarrow> patient_query" where
  "query_record symptoms prescriptionText lang result =
     [(''symptoms_text'', Some (JStr symptoms)),
      (''prescription_text'', Some (if prescriptionText \<noteq> [] then JStr prescriptionText else JNull)),
      (''disease_category'', map_of result ''disease_category''),
      (''severity'', map_of result ''severity''),
      (''recommendation'', map_of result ''recommendation''),
      (''reason'', map_of result ''reason''),
      (''language'', Some (JStr lang))]"

subsection \<open>Locating the JSON object in the model's text\<close>

text \<open>
  The lazy group and closing fence of
  \<^verbatim>\<open>/```(?:json)?\s*([\s\S]*?)```/\<close>: the shortest text that is followed by a fence.
\<close>

fun until_fence :: "string \<Rightarrow> string option" where
  "until_fence [] = None"
| "until_fence (c # cs) =
     (if prefix ''```'' (c # cs) then Some [] else map_option ((#) c) (until_fence cs))"

text \<open>
  \<^verbatim>\<open>\s*([\s\S]*?)```\<close>: the white space is taken greedily and given back one
  character at a time while the rest finds no fence.
\<close>

fun spaces_until_fence :: "(char \<Rightarrow> bool) \<Rightarrow> string \<Rightarrow> string option" where
  "spaces_until_fence sp [] = until_fence []"
| "spaces_until_fence sp (c # cs) =
     (case (if sp c then spaces_until_fence sp cs else None) of
        Some g \<Rightarrow> Some g
      | None \<Rightarrow> until_fence (c # cs))"

text \<open>What follows an opening fence: first with the optional \<open>json\<close>, then without.\<close>

definition fence_body :: "engine \<Rightarrow> string \<Rightarrow> string option" where
  "fence_body js s =
     (case (if prefix ''json'' s then spaces_until_fence (is_space js) (drop 4 s) else None) of
        Some g \<Rightarrow> Some g
      | None \<Rightarrow> spaces_until_fence (is_space js) s)"

fun match_fence :: "engine \<Rightarrow> string \<Rightarrow> string option" where
  "match_fence js [] = None"
| "match_fence js (c # cs) =
     (if prefix ''```'' (c # cs)
      then (case fence_body js (drop 3 (c # cs)) of
              Some g \<Rightarrow> Some g
            | None \<Rightarrow> match_fence js cs)
      else match_fence js cs)"

text \<open>
  \<^verbatim>\<open>/\{[\s\S]*\}/\<close>: from the first opening brace to the last closing brace after it.
\<close>

definition match_object :: "string \<Rightarrow> string option" where
  "match_object s =
     (case dropWhile (\<lambda>c. c \<noteq> CHR ''{'') s of
        [] \<Rightarrow> None
      | b # rest \<Rightarrow>
          (case dropWhile (\<lambda>c. c \<noteq> CHR ''}'') (rev rest) of
             [] \<Rightarrow> None
           | r \<Rightarrow> Some (b # rev r)))"

definition cleanContent :: "engine \<Rightarrow> string \<Rightarrow> string" where
  "cleanContent js aiContent =
     (let c0 = trim js aiContent;
          c1 = (if str_includes c0 ''```''
                then (case match_fence js c0 of Some g \<Rightarrow> trim js g | None \<Rightarrow> c0)
                else c0)
      in case match_object c1 of Some m \<Rightarrow> m | None \<Rightarrow> c1)"

subsection \<open>Validation of the parsed object\<close>

definition required_fields_present :: "obj \<Rightarrow> bool" where
  "required_fields_present a =
     (truthy (map_of a ''disease_category'') \<and> truthy (map_of a ''severity'')
      \<and> truthy (map_of a ''recommendation''))"

text \<open>
  \<open>toUpperCase\<close> is a method of strings only: on any other truthy value the call throws
  a \<open>TypeError\<close>.
\<close>

definition normalize_severity :: "engine \<Rightarrow> obj \<Rightarrow> exn + obj" where
  "normalize_severity js a =
     (case map_of a ''severity'' of
        Some (JStr s) \<Rightarrow>
          (let u = toUpperCase js s;
               a1 = AList.update ''severity'' (JStr u) a
           in if u \<in> set validSeverities then Inr a1
              else Inr (AList.update ''severity'' (JStr ''MODERATE'') a1))
      | _ \<Rightarrow> Inl TypeError)"

definition critical_check :: "obj \<Rightarrow> obj" where
  "critical_check a =
     (if map_of a ''severity'' = Some (JStr ''CRITICAL'')
      then AList.update ''safe_guidance'' JNull
             (AList.update ''recommendation'' (JStr ''Emergency medical attention'') a)
      else a)"

text \<open>
  The loop over the prohibited terms: the test reads the lower-cased guidance as it was
  before the loop, the replacement works on the current text.
\<close>

definition filter_guidance :: "engine \<Rightarrow> string \<Rightarrow> string" where
  "filter_guidance js g =
     foldl (\<lambda>sg prohibited.
              if str_includes (toLowerCase js g) prohibited
              then replace_gi prohibited ''medication (consult doctor)'' sg
              else sg)
       g PROHIBITED_MEDICATION_TYPES"

definition medication_filter :: "engine \<Rightarrow> obj \<Rightarrow> exn + obj" where
  "medication_filter js a =
     (if truthy (map_of a ''safe_guidance'')
      then (case map_of a ''safe_guidance'' of
              Some (JStr g) \<Rightarrow>
                Inr (AList.update ''safe_guidance'' (JStr (filter_guidance js g)) a)
            | _ \<Rightarrow> Inl TypeError)
      else Inr a)"

text \<open>
  The steps after \<open>JSON.parse\<close>. Reading a property of \<open>null\<close> throws; a string, a
  number, a boolean and an array have none of the three required properties.
\<close>

definition validate_parsed :: "engine \<Rightarrow> json \<Rightarrow> exn + obj" where
  "validate_parsed js parsed =
     (case parsed of
        JNull \<Rightarrow> Inl TypeError
      | JObj a \<Rightarrow>
          if \<not> required_fields_present a
          then Inl (Error ''Missing required fields in AI response'')
          else (case normalize_severity js a of
                  Inl e \<Rightarrow> Inl e
                | Inr a1 \<Rightarrow> medication_filter js (critical_check a1))
      | _ \<Rightarrow> Inl (Error ''Missing required fields in AI response''))"

text \<open>
  The body of the inner \<open>try\<close>. \<open>JSON.parse\<close> is a parameter: \<open>None\<close> stands for a
  thrown \<open>SyntaxError\<close>. \<open>trim\<close> is a method of strings only.
\<close>

definition validate :: "engine \<Rightarrow> (string \<Rightarrow> json option) \<Rightarrow> json \<Rightarrow> exn + obj" where
  "validate js JSON_parse aiContent =
     (case aiContent of
        JStr raw \<Rightarrow>
          (case JSON_parse (cleanContent js raw) of
             None \<Rightarrow> Inl SyntaxError
           | Some parsed \<Rightarrow> validate_parsed js parsed)
      | _ \<Rightarrow> Inl TypeError)"

definition fallback :: obj where
  "fallback =
     [(''disease_category'', JStr ''General Health Concern''),
      (''severity'', JStr ''MODERATE''),
      (''recommendation'', JStr ''Consult a doctor''),
      (''reason'', JStr ''Unable to analyze symptoms accurately. Please seek professional medical evaluation.''),
      (''safe_guidance'', JStr ''Please consult a healthcare provider for proper assessment and guidance.'')]"

definition analysisResult :: "engine \<Rightarrow> (string \<Rightarrow> json option) \<Rightarrow> json \<Rightarrow> obj" where
  "analysisResult js JSON_parse aiContent =
     (case validate js JSON_parse aiContent of Inr a \<Rightarrow> a | Inl e \<Rightarrow> fallback)"

subsection \<open>The handler\<close>

text \<open>The outer \<open>catch\<close>: \<open>error.message || 'Analysis failed'\<close> with status 500.\<close>

definition analysis_error :: "string \<Rightarrow> response" where
  "analysis_error message =
     Response 500 (JObj [(''error'', JStr (if message \<noteq> [] then message else ''Analysis failed''))])"

text \<open>The branch taken when a safety rule matches: no model is consulted.\<close>

definition override_branch ::
  "env \<Rightarrow> string \<Rightarrow> string \<Rightarrow> string \<Rightarrow> safety_rule \<Rightarrow> response \<times> event list" where
  "override_branch e lang symptoms prescriptionText rule =
     (let result = override_result (guidance_content e lang) rule
      in (Response 200 (JObj result),
          [Select_safety_rules, Select_guidance lang,
           Insert_patient_query (query_record symptoms prescriptionText lang result)]))"

text \<open>
  The branch taken when no rule matches. A throw outside the inner \<open>try\<close> reaches the
  outer \<open>catch\<close> before anything is stored.
\<close>

definition model_branch ::
  "engine \<Rightarrow> env \<Rightarrow> (string \<Rightarrow> json option) \<Rightarrow> string \<Rightarrow> string \<Rightarrow> string
     \<Rightarrow> response \<times> event list" where
  "model_branch js e JSON_parse lang symptoms prescriptionText =
     (case ai e lang symptoms prescriptionText of
        Fetch_rejects m \<Rightarrow>
          (analysis_error m,
           [Select_safety_rules, Fetch_completion lang symptoms prescriptionText])
      | Not_ok errorText \<Rightarrow>
          (analysis_error (''AI API error: '' @ errorText),
           [Select_safety_rules, Fetch_completion lang symptoms prescriptionText])
      | Body_rejects m \<Rightarrow>
          (analysis_error m,
           [Select_safety_rules, Fetch_completion lang symptoms prescriptionText])
      | Content aiContent \<Rightarrow>
          (case (if truthy aiContent then aiContent else None) of
             None \<Rightarrow>
               (analysis_error ''No response from AI'',
                [Select_safety_rules, Fetch_completion lang symptoms prescriptionText])
           | Some c \<Rightarrow>
               (let result = analysisResult js JSON_parse c
                in (Response 200 (JObj result),
                    [Select_safety_rules, Fetch_completion lang symptoms prescriptionText,
                     Insert_patient_query
                       (query_record symptoms prescriptionText lang result)]))))"

text \<open>The defaults of the destructuring: \<open>language = 'en'\<close>, \<open>prescriptionText = ''\<close>.\<close>

definition language_or_default :: "string option \<Rightarrow> string" where
  "language_or_default l = (case l of None \<Rightarrow> ''en'' | Some x \<Rightarrow> x)"

definition text_or_default :: "string option \<Rightarrow> string" where
  "text_or_default t = (case t of None \<Rightarrow> [] | Some x \<Rightarrow> x)"

text \<open>
  The handler on the parsed body of a POST request whose \<open>symptoms\<close>, \<open>language\<close> and
  \<open>prescriptionText\<close> are strings or absent. It yields the response and the calls made
  to the collaborators, in order.
\<close>

definition analyze_symptoms ::
  "engine \<Rightarrow> env \<Rightarrow> (string \<Rightarrow> json option)
     \<Rightarrow> string option \<Rightarrow> string option \<Rightarrow> string option \<Rightarrow> response \<times> event list" where
  "analyze_symptoms js e JSON_parse symptoms_in language_in prescriptionText_in =
     (let lang = language_or_default language_in;
          prescriptionText = text_or_default prescriptionText_in
      in case symptoms_in of
           None \<Rightarrow> (Response 400 (JObj [(''error'', JStr ''Symptoms text is required'')]), [])
         | Some symptoms \<Rightarrow>
             if symptoms_missing js symptoms_in
             then (Response 400 (JObj [(''error'', JStr ''Symptoms text is required'')]), [])
             else
               (case matchedRule js (safety_rules e) (fullText js symptoms prescriptionText) of
                  Some rule \<Rightarrow> override_branch e lang symptoms prescriptionText rule
                | None \<Rightarrow> model_branch js e JSON_parse lang symptoms prescriptionText))"

fun is_fetch :: "event \<Rightarrow> bool" where
  "is_fetch (Fetch_completion l s p) = True"
| "is_fetch ev = False"

definition model_invoked :: "event list \<Rightarrow> bool" where
  "model_invoked evs = list_ex is_fetch evs"

definition persisted :: "event list \<Rightarrow> patient_query list" where
  "persisted evs = concat (map (\<lambda>ev. case ev of Insert_patient_query q \<Rightarrow> [q] | _ \<Rightarrow> []) evs)"

section \<open>The medication-info function\<close>
















section \<open>What the medication safety filter is to do\<close>



section \<open>Example inputs\<close>

text \<open>
  The engine on texts of ASCII characters: the case mappings exchange the 26 letters,
  and white space is tab, line feed, vertical tab, form feed, carriage return and space.
\<close>

definition upper_char :: "char \<Rightarrow> char" where
  "upper_char c = (case map_of (zip lower_letters upper_letters) c of None \<Rightarrow> c | Some d \<Rightarrow> d)"

definition ascii_space :: "char \<Rightarrow> bool" where
  "ascii_space c = (c \<in> set [CHR 0x09, CHR 0x0A, CHR 0x0B, CHR 0x0C, CHR 0x0D, CHR '' ''])"

definition ascii_engine :: engine where
  "ascii_engine =
     \<lparr> toLowerCase = map lower_char,
       toUpperCase = map upper_char,
       trim = (\<lambda>s. rev (dropWhile ascii_space (rev (dropWhile ascii_space s)))),
       is_space = ascii_space \<rparr>"

definition chest_pain_rule :: safety_rule where
  "chest_pain_rule =
     \<lparr> rule_id = ''1'', keyword = ''chest pain'', category = ''Cardiac Emergency'',
       rule_severity = ''EMERGENCY'',
       override_text = ''Call emergency services immediately.'' \<rparr>"

definition overdose_rule :: safety_rule where
  "overdose_rule =
     \<lparr> rule_id = ''2'', keyword = ''overdose'', category = ''Poisoning'',
       rule_severity = ''EMERGENCY'',
       override_text = ''Call emergency services immediately.'' \<rparr>"

definition empty_rule :: safety_rule where
  "empty_rule =
     \<lparr> rule_id = ''3'', keyword = [], category = ''Unspecified'',
       rule_severity = ''EMERGENCY'',
       override_text = ''Call emergency services immediately.'' \<rparr>"

text \<open>An environment without guidance rows whose model always gives the same reply.\<close>

definition example_env :: "safety_rule list option \<Rightarrow> ai_reply \<Rightarrow> env" where
  "example_env rules reply =
     \<lparr> safety_rules = rules, guidance_content = (\<lambda>l. None), ai = (\<lambda>l s p. reply) \<rparr>"

text \<open>Texts a model may send, and what \<open>JSON.parse\<close> makes of them.\<close>

definition critical_text :: string where
  \<open>critical_text =
     ''{"disease_category": "Cardiac", "severity": "critical", "recommendation": "rest at home", "reason": "Chest discomfort", "safe_guidance": "Drink water"}''\<close>

definition critical_object :: obj where
  "critical_object =
     [(''disease_category'', JStr ''Cardiac''), (''severity'', JStr ''critical''),
      (''recommendation'', JStr ''rest at home''), (''reason'', JStr ''Chest discomfort''),
      (''safe_guidance'', JStr ''Drink water'')]"

definition urgent_text :: string where
  \<open>urgent_text =
     ''{"disease_category": "Fever", "severity": "urgent", "recommendation": "Consult a doctor", "reason": "High temperature", "safe_guidance": "Take Antibiotics"}''\<close>

definition urgent_object :: obj where
  "urgent_object =
     [(''disease_category'', JStr ''Fever''), (''severity'', JStr ''urgent''),
      (''recommendation'', JStr ''Consult a doctor''), (''reason'', JStr ''High temperature''),
      (''safe_guidance'', JStr ''Take Antibiotics'')]"

definition incomplete_text :: string where
  \<open>incomplete_text = ''{"disease_category": "Fever", "severity": "", "reason": "High temperature"}''\<close>

definition incomplete_object :: obj where
  "incomplete_object =
     [(''disease_category'', JStr ''Fever''), (''severity'', JStr []),
      (''reason'', JStr ''High temperature'')]"

definition dosage_text :: string where
  \<open>dosage_text =
     ''{"medicine_name": "Paracetamol", "overview": "Pain reliever", "common_uses": "Fever", "dosage_info": "Take 500MG twice daily", "side_effects": "Nausea", "warnings": "Liver disease", "when_to_consult": "If fever persists", "disclaimer": "For educational purposes only; does not replace medical advice."}''\<close>

definition dosage_object :: obj where
  "dosage_object =
     [(''medicine_name'', JStr ''Paracetamol''), (''overview'', JStr ''Pain reliever''),
      (''common_uses'', JStr ''Fever''), (''dosage_info'', JStr ''Take 500MG twice daily''),
      (''side_effects'', JStr ''Nausea''), (''warnings'', JStr ''Liver disease''),
      (''when_to_consult'', JStr ''If fever persists''),
      (''disclaimer'', JStr ''For educational purposes only; does not replace medical advice.'')]"

definition high_text :: string where
  \<open>high_text =
     ''{"disease_category": "Fever", "severity": "high", "recommendation": "Consult a doctor urgently", "reason": "Persistent fever", "safe_guidance": "Rest"}''\<close>

definition high_object :: obj where
  "high_object =
     [(''disease_category'', JStr ''Fever''), (''severity'', JStr ''high''),
      (''recommendation'', JStr ''Consult a doctor urgently''),
      (''reason'', JStr ''Persistent fever''), (''safe_guidance'', JStr ''Rest'')]"

definition list_guidance_text :: string where
  \<open>list_guidance_text =
     ''{"disease_category": "Cold", "severity": "low", "recommendation": "Self-care", "reason": "Mild symptoms", "safe_guidance": ["Rest"]}''\<close>

definition list_guidance_object :: obj where
  "list_guidance_object =
     [(''disease_category'', JStr ''Cold''), (''severity'', JStr ''low''),
      (''recommendation'', JStr ''Self-care''), (''reason'', JStr ''Mild symptoms''),
      (''safe_guidance'', JArr [JStr ''Rest''])]"

definition number_severity_text :: string where
  \<open>number_severity_text =
     ''{"disease_category": "Cold", "severity": 1, "recommendation": "Self-care", "reason": "Mild symptoms", "safe_guidance": "Rest"}''\<close>

definition number_severity_object :: obj where
  "number_severity_object =
     [(''disease_category'', JStr ''Cold''), (''severity'', JNum 1),
      (''recommendation'', JStr ''Self-care''), (''reason'', JStr ''Mild symptoms''),
      (''safe_guidance'', JStr ''Rest'')]"

text \<open>
  A parser that agrees with \<open>JSON.parse\<close> on the texts above and on every text that is
  not JSON, where it throws.
\<close>

definition example_parse :: "string \<Rightarrow> json option" where
  "example_parse s =
     map_of [(critical_text, JObj critical_object), (urgent_text, JObj urgent_object),
             (incomplete_text, JObj incomplete_object), (dosage_text, JObj dosage_object),
             (high_text, JObj high_object), (list_guidance_text, JObj list_guidance_object),
             (number_severity_text, JObj number_severity_object)] s"

section \<open>Properties of the handler\<close>

lemma str_includes_Nil: "str_includes s []"
  by (cases s) simp_all

lemma override_when_matched:
  assumes "\<not> symptoms_missing js (Some s)"
    and "matchedRule js (safety_rules e) (fullText js s (text_or_default pr)) = Some rule"
  shows "analyze_symptoms js e P (Some s) la pr =
           override_branch e (language_or_default la) s (text_or_default pr) rule"
  using assms by (simp add: analyze_symptoms_def)

lemma model_when_unmatched:
  assumes "\<not> symptoms_missing js (Some s)"
    and "matchedRule js (safety_rules e) (fullText js s (text_or_default pr)) = None"
  shows "analyze_symptoms js e P (Some s) la pr =
           model_branch js e P (language_or_default la) s (text_or_default pr)"
  using assms by (simp add: analyze_symptoms_def)

lemma rejected_when_missing:
  assumes "symptoms_missing js sy"
  shows "analyze_symptoms js e P sy la pr =
           (Response 400 (JObj [(''error'', JStr ''Symptoms text is required'')]), [])"
  using assms by (cases sy) (simp_all add: analyze_symptoms_def Let_def)

lemma model_branch_cases:
  assumes "model_branch js e P l s p = (Response st body, evs)"
  obtains (failed) m where "st = 500" "body = JObj [(''error'', JStr m)]"
      "evs = [Select_safety_rules, Fetch_completion l s p]"
  | (analysed) c where "ai e l s p = Content (Some c)" "truthy (Some c)"
      "st = 200" "body = JObj (analysisResult js P c)"
      "evs = [Select_safety_rules, Fetch_completion l s p,
              Insert_patient_query (query_record s p l (analysisResult js P c))]"
  using assms
  unfolding model_branch_def Let_def analysis_error_def
  by (auto split: if_splits option.splits ai_reply.splits)

lemma analyze_symptoms_cases:
  assumes "analyze_symptoms js e P sy la pr = (Response st body, evs)"
  obtains (rejected) "symptoms_missing js sy" "st = 400"
      "body = JObj [(''error'', JStr ''Symptoms text is required'')]" "evs = []"
  | (override) s rule where "sy = Some s" "\<not> symptoms_missing js sy"
      "matchedRule js (safety_rules e) (fullText js s (text_or_default pr)) = Some rule"
      "(Response st body, evs) =
         override_branch e (language_or_default la) s (text_or_default pr) rule"
  | (model) s where "sy = Some s" "\<not> symptoms_missing js sy"
      "matchedRule js (safety_rules e) (fullText js s (text_or_default pr)) = None"
      "(Response st body, evs) =
         model_branch js e P (language_or_default la) s (text_or_default pr)"
proof (cases "symptoms_missing js sy")
  case True
  then show ?thesis using assms rejected rejected_when_missing [OF True, of e P la pr] by simp
next
  case False
  then obtain s where s: "sy = Some s" by (cases sy) (auto simp: symptoms_missing_def)
  show ?thesis
  proof (cases "matchedRule js (safety_rules e) (fullText js s (text_or_default pr))")
    case None
    then show ?thesis
      using assms s False model model_when_unmatched [of js s e pr P la] by simp
  next
    case (Some rule)
    then show ?thesis
      using assms s False override override_when_matched [of js s e pr rule P la] by simp
  qed
qed

lemma map_of_critical_check_severity:
  "map_of (critical_check a) ''severity'' = map_of a ''severity''"
  by (simp add: critical_check_def update_conv')

lemma medication_filter_other:
  "medication_filter js a = Inr b \<Longrightarrow> k \<noteq> ''safe_guidance'' \<Longrightarrow> map_of b k = map_of a k"
  by (auto simp: medication_filter_def update_conv' split: if_splits option.splits json.splits)

lemma medication_filter_null:
  "map_of a ''safe_guidance'' = Some JNull \<Longrightarrow> medication_filter js a = Inr a"
  by (simp add: medication_filter_def)

lemma validate_parsed_critical:
  assumes "validate_parsed js parsed = Inr b" and "map_of b ''severity'' = Some (JStr ''CRITICAL'')"
  shows "map_of b ''recommendation'' = Some (JStr ''Emergency medical attention'')
         \<and> map_of b ''safe_guidance'' = Some JNull"
proof -
  from assms(1) obtain a a1 where p: "parsed = JObj a" and n: "normalize_severity js a = Inr a1"
    and m: "medication_filter js (critical_check a1) = Inr b"
    by (auto simp: validate_parsed_def split: json.splits if_splits sum.splits)
  have "map_of (critical_check a1) ''severity'' = Some (JStr ''CRITICAL'')"
    using medication_filter_other [OF m, of "''severity''"] assms(2) by simp
  then have c: "map_of a1 ''severity'' = Some (JStr ''CRITICAL'')"
    by (simp add: map_of_critical_check_severity)
  then have cc: "critical_check a1 =
      AList.update ''safe_guidance'' JNull
        (AList.update ''recommendation'' (JStr ''Emergency medical attention'') a1)"
    by (simp add: critical_check_def)
  have "map_of (critical_check a1) ''safe_guidance'' = Some JNull"
    by (simp add: cc update_conv')
  then have "b = critical_check a1"
    using m by (simp add: medication_filter_null)
  then show ?thesis
    by (simp add: cc update_conv')
qed

lemma analysisResult_critical:
  assumes "map_of (analysisResult js P c) ''severity'' = Some (JStr ''CRITICAL'')"
  shows "map_of (analysisResult js P c) ''recommendation'' = Some (JStr ''Emergency medical attention'')
         \<and> map_of (analysisResult js P c) ''safe_guidance'' = Some JNull"
proof (cases "validate js P c")
  case (Inl e)
  then show ?thesis using assms by (simp add: analysisResult_def fallback_def)
next
  case (Inr b)
  then obtain parsed where "validate_parsed js parsed = Inr b"
    by (auto simp: validate_def split: json.splits option.splits)
  then show ?thesis using assms Inr validate_parsed_critical [of js parsed b]
    by (simp add: analysisResult_def)
qed

text \<open>
  C1. Whatever the handler answers, by the override branch or after validating the
  model's reply: a body whose severity is CRITICAL has the fixed emergency
  recommendation and a null safe_guidance.
\<close>

theorem critical_result_is_emergency:
  assumes "analyze_symptoms js e JSON_parse symptoms lang prescriptionText = (Response st body, evs)"
    and "field body ''severity'' = Some (JStr ''CRITICAL'')"
  shows "field body ''recommendation'' = Some (JStr ''Emergency medical attention'')
         \<and> field body ''safe_guidance'' = Some JNull"
  using assms(1)
proof (cases rule: analyze_symptoms_cases)
  case rejected
  then show ?thesis using assms(2) by simp
next
  case (override s rule)
  then show ?thesis by (auto simp: override_branch_def override_result_def Let_def)
next
  case (model s)
  from model(4) [symmetric] show ?thesis
  proof (cases rule: model_branch_cases)
    case (failed m)
    then show ?thesis using assms(2) by simp
  next
    case (analysed c)
    then show ?thesis using assms(2) analysisResult_critical [of js JSON_parse c] by simp
  qed
qed

lemma critical_run:
  "analyze_symptoms ascii_engine (example_env (Some [chest_pain_rule]) (Content (Some (JStr critical_text))))
     example_parse (Some ''mild headache'') None None =
   (Response 200
      (JObj [(''disease_category'', JStr ''Cardiac''), (''severity'', JStr ''CRITICAL''),
             (''recommendation'', JStr ''Emergency medical attention''),
             (''reason'', JStr ''Chest discomfort''), (''safe_guidance'', JNull)]),
    [Select_safety_rules, Fetch_completion ''en'' ''mild headache'' [],
     Insert_patient_query
       [(''symptoms_text'', Some (JStr ''mild headache'')), (''prescription_text'', Some JNull),
        (''disease_category'', Some (JStr ''Cardiac'')), (''severity'', Some (JStr ''CRITICAL'')),
        (''recommendation'', Some (JStr ''Emergency medical attention'')),
        (''reason'', Some (JStr ''Chest discomfort'')), (''language'', Some (JStr ''en''))]])"
  by code_simp

theorem critical_result_is_emergency_witness:
  "field (body_of (fst (analyze_symptoms ascii_engine
       (example_env (Some [chest_pain_rule]) (Content (Some (JStr critical_text))))
       example_parse (Some ''mild headache'') None None))) ''severity''
     = Some (JStr ''CRITICAL'')
   \<and> field (body_of (fst (analyze_symptoms ascii_engine
       (example_env (Some [chest_pain_rule]) (Content (Some (JStr critical_text))))
       example_parse (Some ''mild headache'') None None))) ''recommendation''
     = Some (JStr ''Emergency medical attention'')
   \<and> field (body_of (fst (analyze_symptoms ascii_engine
       (example_env (Some [chest_pain_rule]) (Content (Some (JStr critical_text))))
       example_parse (Some ''mild headache'') None None))) ''safe_guidance''
     = Some JNull"
  using critical_result_is_emergency [OF critical_run] by (simp add: critical_run)

text \<open>
  C4. A request without symptom text is answered with status 400 even when it carries a
  prescription text, and nothing else happens.
\<close>

theorem empty_symptoms_rejected:
  "analyze_symptoms js e JSON_parse (Some []) lang (Some ''Paracetamol 500mg twice daily'') =
     (Response 400 (JObj [(''error'', JStr ''Symptoms text is required'')]), [])"
  by (simp add: analyze_symptoms_def symptoms_missing_def)

text \<open>
  C2, as the code has it. The text searched is the symptoms, a blank and the
  prescription text, lower-cased. When the request is not rejected for its symptoms and
  some rule's lower-cased keyword occurs in that text, the handler answers with the
  override result of the first such rule: every rule before it does not match, the
  severity is CRITICAL, safe_guidance is null, is_override is true, the category is the
  rule's, and the model is not called.
\<close>

theorem override_on_first_match:
  assumes "\<not> symptoms_missing js (Some symptoms)"
    and "safety_rules e = Some rules"
    and "\<exists>r \<in> set rules.
           str_includes (fullText js symptoms (text_or_default prescriptionText))
             (toLowerCase js (keyword r))"
  shows "\<exists>i < length rules.
           str_includes (fullText js symptoms (text_or_default prescriptionText))
             (toLowerCase js (keyword (rules ! i)))
           \<and> (\<forall>j < i. \<not> str_includes (fullText js symptoms (text_or_default prescriptionText))
                           (toLowerCase js (keyword (rules ! j))))
           \<and> status_of (fst (analyze_symptoms js e JSON_parse (Some symptoms) lang prescriptionText)) = 200
           \<and> body_of (fst (analyze_symptoms js e JSON_parse (Some symptoms) lang prescriptionText)) =
               JObj [(''disease_category'', JStr (category (rules ! i))),
                     (''severity'', JStr ''CRITICAL''),
                     (''recommendation'', JStr ''Emergency medical attention''),
                     (''reason'', JStr (override_reason
                         (guidance_content e (language_or_default lang)) (rules ! i))),
                     (''safe_guidance'', JNull),
                     (''is_override'', JBool True)]
           \<and> \<not> model_invoked (snd (analyze_symptoms js e JSON_parse (Some symptoms) lang prescriptionText))"
proof -
  let ?ft = "fullText js symptoms (text_or_default prescriptionText)"
  let ?P = "\<lambda>r. str_includes ?ft (toLowerCase js (keyword r))"
  from assms(3) obtain rule where f: "find ?P rules = Some rule"
    by (cases "find ?P rules") (auto simp: find_None_iff)
  then obtain i where i: "i < length rules" "?P (rules ! i)" "rule = rules ! i"
    "\<forall>j < i. \<not> ?P (rules ! j)"
    by (auto simp: find_Some_iff)
  have m: "matchedRule js (safety_rules e) ?ft = Some rule"
    using f assms(2) by (simp add: matchedRule_def)
  have "analyze_symptoms js e JSON_parse (Some symptoms) lang prescriptionText =
          override_branch e (language_or_default lang) symptoms (text_or_default prescriptionText) rule"
    using override_when_matched [OF assms(1) m] .
  then show ?thesis
    using i by (auto simp: override_branch_def override_result_def Let_def model_invoked_def)
qed

lemma override_run:
  "\<not> symptoms_missing ascii_engine (Some ''Severe Chest Pain since morning'')
   \<and> safety_rules (example_env (Some [overdose_rule, chest_pain_rule]) (Not_ok [])) =
       Some [overdose_rule, chest_pain_rule]
   \<and> str_includes (fullText ascii_engine ''Severe Chest Pain since morning'' (text_or_default None))
        (toLowerCase ascii_engine (keyword chest_pain_rule))"
  by code_simp

theorem override_on_first_match_witness:
  "status_of (fst (analyze_symptoms ascii_engine (example_env (Some [overdose_rule, chest_pain_rule]) (Not_ok []))
       example_parse (Some ''Severe Chest Pain since morning'') None None)) = 200
   \<and> field (body_of (fst (analyze_symptoms ascii_engine (example_env (Some [overdose_rule, chest_pain_rule]) (Not_ok []))
       example_parse (Some ''Severe Chest Pain since morning'') None None))) ''is_override''
       = Some (JBool True)
   \<and> \<not> model_invoked (snd (analyze_symptoms ascii_engine
       (example_env (Some [overdose_rule, chest_pain_rule]) (Not_ok []))
       example_parse (Some ''Severe Chest Pain since morning'') None None))"
proof -
  have "\<exists>r \<in> set [overdose_rule, chest_pain_rule].
          str_includes (fullText ascii_engine ''Severe Chest Pain since morning'' (text_or_default None))
            (toLowerCase ascii_engine (keyword r))"
    using override_run by simp
  from override_on_first_match [OF _ _ this, of "example_env (Some [overdose_rule, chest_pain_rule]) (Not_ok [])" example_parse None]
  show ?thesis using override_run by auto
qed

text \<open>
  C2 as stated fails: the keyword \<open>overdose\<close> occurs in the lower-cased concatenation of
  the two texts, yet no rule matches and the model is called, because the handler
  searches the texts joined by a blank.
\<close>

theorem concatenation_match_counterexample:
  "str_includes (toLowerCase ascii_engine (''took an over'' @ ''dose of pills'')) (toLowerCase ascii_engine (keyword overdose_rule))
   \<and> analyze_symptoms ascii_engine (example_env (Some [overdose_rule]) (Content (Some (JStr ''I cannot help with that.''))))
       example_parse (Some ''took an over'') None (Some ''dose of pills'') =
     (Response 200 (JObj fallback),
      [Select_safety_rules, Fetch_completion ''en'' ''took an over'' ''dose of pills'',
       Insert_patient_query (query_record ''took an over'' ''dose of pills'' ''en'' fallback)])
   \<and> model_invoked (snd (analyze_symptoms ascii_engine (example_env (Some [overdose_rule]) (Content (Some (JStr ''I cannot help with that.''))))
       example_parse (Some ''took an over'') None (Some ''dose of pills'')))"
  by code_simp

text \<open>
  C3, as the code has it. Let the symptoms be accepted and no rule match. When the call
  to the model is rejected, when it is answered with a status that is not a success, or
  when reading the answer throws, the handler answers with status 500 and an error
  object: the message \<open>AI API error: \<close> followed by the upstream text for a status that
  is not a success, else the message of the error, or \<open>Analysis failed\<close> when that is
  empty. Only the rules are read and the model called: no record is stored, and the
  body is not the fallback result.
\<close>

theorem model_failure_is_error_response:
  assumes "\<not> symptoms_missing js (Some symptoms)"
    and "matchedRule js (safety_rules e) (fullText js symptoms (text_or_default prescriptionText)) = None"
    and "ai e (language_or_default lang) symptoms (text_or_default prescriptionText) = Not_ok t
         \<or> ai e (language_or_default lang) symptoms (text_or_default prescriptionText) = Fetch_rejects t
         \<or> ai e (language_or_default lang) symptoms (text_or_default prescriptionText) = Body_rejects t"
  shows "analyze_symptoms js e JSON_parse (Some symptoms) lang prescriptionText =
           (Response 500
              (JObj [(''error'',
                 JStr (if ai e (language_or_default lang) symptoms (text_or_default prescriptionText) = Not_ok t
                       then ''AI API error: '' @ t
                       else if t \<noteq> [] then t else ''Analysis failed''))]),
            [Select_safety_rules,
             Fetch_completion (language_or_default lang) symptoms (text_or_default prescriptionText)])
         \<and> persisted (snd (analyze_symptoms js e JSON_parse (Some symptoms) lang prescriptionText)) = []
         \<and> body_of (fst (analyze_symptoms js e JSON_parse (Some symptoms) lang prescriptionText))
              \<noteq> JObj fallback"
  using assms(3) model_when_unmatched [OF assms(1,2), of JSON_parse lang]
  by (auto simp: model_branch_def analysis_error_def persisted_def fallback_def)

lemma failure_run:
  "\<not> symptoms_missing ascii_engine (Some ''mild headache'')
   \<and> matchedRule ascii_engine
        (safety_rules (example_env (Some [chest_pain_rule]) (Not_ok ''Service Unavailable'')))
        (fullText ascii_engine ''mild headache'' (text_or_default None)) = None
   \<and> ai (example_env (Some [chest_pain_rule]) (Not_ok ''Service Unavailable''))
        (language_or_default None) ''mild headache'' (text_or_default None) = Not_ok ''Service Unavailable''"
  by code_simp

theorem model_failure_is_error_response_witness:
  "analyze_symptoms ascii_engine (example_env (Some [chest_pain_rule]) (Not_ok ''Service Unavailable''))
     example_parse (Some ''mild headache'') None None =
   (Response 500 (JObj [(''error'', JStr ''AI API error: Service Unavailable'')]),
    [Select_safety_rules, Fetch_completion ''en'' ''mild headache'' []])"
  using model_failure_is_error_response [of ascii_engine "''mild headache''"
      "example_env (Some [chest_pain_rule]) (Not_ok ''Service Unavailable'')" None None
      "''Service Unavailable''" example_parse]
    failure_run
  by (simp add: language_or_default_def text_or_default_def)

text \<open>
  C3 as stated fails: the model answers with a status that is not a success, and the
  caller receives status 500 with an error object, not the fallback result.
\<close>

theorem model_failure_counterexample:
  "status_of (fst (analyze_symptoms ascii_engine
       (example_env (Some [chest_pain_rule]) (Not_ok ''Service Unavailable''))
       example_parse (Some ''mild headache'') None None)) = 500
   \<and> body_of (fst (analyze_symptoms ascii_engine
       (example_env (Some [chest_pain_rule]) (Not_ok ''Service Unavailable''))
       example_parse (Some ''mild headache'') None None))
       = JObj [(''error'', JStr ''AI API error: Service Unavailable'')]
   \<and> body_of (fst (analyze_symptoms ascii_engine
       (example_env (Some [chest_pain_rule]) (Not_ok ''Service Unavailable''))
       example_parse (Some ''mild headache'') None None)) \<noteq> JObj fallback"
  by code_simp

text \<open>
  C9, as the code has it. With every result answered with status 200 exactly one record
  is stored. It holds the symptoms, the prescription text (null when empty), the
  language, and the disease_category, severity, recommendation and reason of the result,
  and no other property.
\<close>

theorem persisted_record_fields:
  assumes "analyze_symptoms js e JSON_parse symptoms lang prescriptionText =
             (Response 200 (JObj result), evs)"
  shows "\<exists>s. symptoms = Some s
           \<and> persisted evs =
               [[(''symptoms_text'', Some (JStr s)),
                 (''prescription_text'',
                    Some (if text_or_default prescriptionText \<noteq> []
                          then JStr (text_or_default prescriptionText) else JNull)),
                 (''disease_category'', map_of result ''disease_category''),
                 (''severity'', map_of result ''severity''),
                 (''recommendation'', map_of result ''recommendation''),
                 (''reason'', map_of result ''reason''),
                 (''language'', Some (JStr (language_or_default lang)))]]"
  using assms
proof (cases rule: analyze_symptoms_cases)
  case rejected
  then show ?thesis by simp
next
  case (override s rule)
  then show ?thesis
    by (auto simp: override_branch_def Let_def persisted_def query_record_def)
next
  case (model s)
  from model(4) [symmetric] show ?thesis
  proof (cases rule: model_branch_cases)
    case (failed m)
    then show ?thesis by simp
  next
    case (analysed c)
    then show ?thesis using model(1)
      by (auto simp: persisted_def query_record_def)
  qed
qed

theorem persisted_record_fields_witness:
  "persisted (snd (analyze_symptoms ascii_engine
       (example_env (Some [chest_pain_rule]) (Content (Some (JStr critical_text))))
       example_parse (Some ''mild headache'') None None)) =
     [[(''symptoms_text'', Some (JStr ''mild headache'')), (''prescription_text'', Some JNull),
       (''disease_category'', Some (JStr ''Cardiac'')), (''severity'', Some (JStr ''CRITICAL'')),
       (''recommendation'', Some (JStr ''Emergency medical attention'')),
       (''reason'', Some (JStr ''Chest discomfort'')), (''language'', Some (JStr ''en''))]]"
  using persisted_record_fields [OF critical_run]
  by (simp add: critical_run text_or_default_def language_or_default_def)

text \<open>
  C9 as stated fails: the override result carries is_override and safe_guidance, and
  the fallback result carries a safe_guidance text, but the stored records have no
  such properties.
\<close>

theorem persisted_record_counterexample:
  "field (body_of (fst (analyze_symptoms ascii_engine (example_env (Some [chest_pain_rule]) (Not_ok []))
       example_parse (Some ''severe chest pain'') None None))) ''is_override'' = Some (JBool True)
   \<and> persisted (snd (analyze_symptoms ascii_engine (example_env (Some [chest_pain_rule]) (Not_ok []))
       example_parse (Some ''severe chest pain'') None None))
       = [query_record ''severe chest pain'' [] ''en'' (override_result None chest_pain_rule)]
   \<and> map_of (query_record ''severe chest pain'' [] ''en'' (override_result None chest_pain_rule))
        ''is_override'' = None
   \<and> field (body_of (fst (analyze_symptoms ascii_engine
         (example_env (Some [chest_pain_rule]) (Content (Some (JStr ''I cannot help with that.''))))
         example_parse (Some ''mild headache'') None None))) ''safe_guidance''
       = Some (JStr ''Please consult a healthcare provider for proper assessment and guidance.'')
   \<and> persisted (snd (analyze_symptoms ascii_engine
         (example_env (Some [chest_pain_rule]) (Content (Some (JStr ''I cannot help with that.''))))
         example_parse (Some ''mild headache'') None None))
       = [query_record ''mild headache'' [] ''en'' fallback]
   \<and> map_of (query_record ''mild headache'' [] ''en'' fallback) ''safe_guidance'' = None"
  by code_simp

text \<open>
  C10. When some rule has the empty keyword (and the engine lower-cases the empty text
  to itself), every request that is not rejected for its symptoms is answered from the
  override branch: a rule of the set matches, the answer is its
  override result with severity CRITICAL, and the model is not called.
\<close>

theorem empty_keyword_matches_every_request:
  assumes "\<not> symptoms_missing js (Some symptoms)"
    and "safety_rules e = Some rules"
    and "r \<in> set rules"
    and "keyword r = []"
    and "toLowerCase js [] = []"
  shows "\<exists>rule \<in> set rules.
           matchedRule js (safety_rules e) (fullText js symptoms (text_or_default prescriptionText)) = Some rule
           \<and> fst (analyze_symptoms js e JSON_parse (Some symptoms) lang prescriptionText) =
               Response 200 (JObj (override_result (guidance_content e (language_or_default lang)) rule))
           \<and> field (body_of (fst (analyze_symptoms js e JSON_parse (Some symptoms) lang prescriptionText)))
                ''severity'' = Some (JStr ''CRITICAL'')
           \<and> \<not> model_invoked (snd (analyze_symptoms js e JSON_parse (Some symptoms) lang prescriptionText))"
proof -
  let ?ft = "fullText js symptoms (text_or_default prescriptionText)"
  let ?P = "\<lambda>r. str_includes ?ft (toLowerCase js (keyword r))"
  have "?P r" using assms(4,5) by (simp add: str_includes_Nil)
  with assms(3) obtain rule where f: "find ?P rules = Some rule"
    by (cases "find ?P rules") (auto simp: find_None_iff)
  then have mem: "rule \<in> set rules"
    by (auto simp: find_Some_iff)
  have m: "matchedRule js (safety_rules e) ?ft = Some rule"
    using f assms(2) by (simp add: matchedRule_def)
  have "analyze_symptoms js e JSON_parse (Some symptoms) lang prescriptionText =
          override_branch e (language_or_default lang) symptoms (text_or_default prescriptionText) rule"
    using override_when_matched [OF assms(1) m] .
  then show ?thesis
    using mem m by (auto simp: override_branch_def override_result_def Let_def model_invoked_def)
qed

lemma empty_keyword_run:
  "\<not> symptoms_missing ascii_engine (Some ''mild headache'')
   \<and> safety_rules (example_env (Some [chest_pain_rule, empty_rule]) (Not_ok [])) =
        Some [chest_pain_rule, empty_rule]
   \<and> empty_rule \<in> set [chest_pain_rule, empty_rule]
   \<and> keyword empty_rule = []
   \<and> toLowerCase ascii_engine [] = []"
  by code_simp

theorem empty_keyword_matches_every_request_witness:
  "fst (analyze_symptoms ascii_engine (example_env (Some [chest_pain_rule, empty_rule]) (Not_ok []))
          example_parse (Some ''mild headache'') None None) =
     Response 200 (JObj (override_result None empty_rule))
   \<and> \<not> model_invoked (snd (analyze_symptoms ascii_engine
          (example_env (Some [chest_pain_rule, empty_rule]) (Not_ok []))
          example_parse (Some ''mild headache'') None None))"
proof -
  have h: "\<not> symptoms_missing ascii_engine (Some ''mild headache'')"
    "safety_rules (example_env (Some [chest_pain_rule, empty_rule]) (Not_ok [])) =
        Some [chest_pain_rule, empty_rule]"
    "empty_rule \<in> set [chest_pain_rule, empty_rule]"
    "keyword empty_rule = []"
    "toLowerCase ascii_engine [] = []"
    using empty_keyword_run by simp_all
  have "matchedRule ascii_engine (Some [chest_pain_rule, empty_rule])
          (fullText ascii_engine ''mild headache'' (text_or_default None)) = Some empty_rule"
    by code_simp
  with empty_keyword_matches_every_request [OF h, of None example_parse None]
  show ?thesis by (auto simp: example_env_def language_or_default_def)
qed

lemma analysed_response:
  assumes "\<not> symptoms_missing js (Some s)"
    and "matchedRule js (safety_rules e) (fullText js s (text_or_default pr)) = None"
    and "ai e (language_or_default la) s (text_or_default pr) = Content (Some c)"
    and "truthy (Some c)"
  shows "fst (analyze_symptoms js e P (Some s) la pr) = Response 200 (JObj (analysisResult js P c))"
  using assms(3,4) model_when_unmatched [OF assms(1,2), of P la]
  by (simp add: model_branch_def Let_def)

lemma validate_parsed_not_object:
  "\<forall>a. v \<noteq> JObj a \<Longrightarrow> \<exists>e. validate_parsed js v = Inl e"
  by (cases v) (simp_all add: validate_parsed_def)

lemma validate_parsed_missing:
  "\<not> required_fields_present a \<Longrightarrow> \<exists>e. validate_parsed js (JObj a) = Inl e"
  by (simp add: validate_parsed_def)

text \<open>
  C5. When \<open>JSON.parse\<close> throws on the text located in the model's output, or yields
  something that is not an object, or yields an object in which disease_category,
  severity or recommendation is missing or empty (or otherwise falsy), the validator
  gives exactly the fixed fallback result, and the handler answers with it.
\<close>

theorem fallback_on_unusable_output:
  assumes "JSON_parse (cleanContent js raw) = None
           \<or> (\<exists>v. JSON_parse (cleanContent js raw) = Some v \<and> (\<forall>a. v \<noteq> JObj a))
           \<or> (\<exists>a k. JSON_parse (cleanContent js raw) = Some (JObj a)
                 \<and> k \<in> {''disease_category'', ''severity'', ''recommendation''}
                 \<and> \<not> truthy (map_of a k))"
  shows "analysisResult js JSON_parse (JStr raw) =
           [(''disease_category'', JStr ''General Health Concern''),
            (''severity'', JStr ''MODERATE''),
            (''recommendation'', JStr ''Consult a doctor''),
            (''reason'', JStr ''Unable to analyze symptoms accurately. Please seek professional medical evaluation.''),
            (''safe_guidance'', JStr ''Please consult a healthcare provider for proper assessment and guidance.'')]
         \<and> (\<not> symptoms_missing js (Some symptoms)
              \<and> matchedRule js (safety_rules e) (fullText js symptoms (text_or_default prescriptionText)) = None
              \<and> ai e (language_or_default lang) symptoms (text_or_default prescriptionText)
                   = Content (Some (JStr raw))
              \<and> raw \<noteq> []
              \<longrightarrow> fst (analyze_symptoms js e JSON_parse (Some symptoms) lang prescriptionText) =
                    Response 200 (JObj fallback))"
proof -
  have "\<exists>e. validate js JSON_parse (JStr raw) = Inl e"
    using assms
  proof (elim disjE exE conjE)
    assume "JSON_parse (cleanContent js raw) = None"
    then show ?thesis by (simp add: validate_def)
  next
    fix v assume "JSON_parse (cleanContent js raw) = Some v" "\<forall>a. v \<noteq> JObj a"
    then show ?thesis using validate_parsed_not_object [of v js] by (simp add: validate_def)
  next
    fix a k assume p: "JSON_parse (cleanContent js raw) = Some (JObj a)"
      and k: "k \<in> {''disease_category'', ''severity'', ''recommendation''}"
      and f: "\<not> truthy (map_of a k)"
    from k f have "\<not> required_fields_present a"
      by (auto simp: required_fields_present_def)
    then show ?thesis using p validate_parsed_missing [of a js] by (simp add: validate_def)
  qed
  then have r: "analysisResult js JSON_parse (JStr raw) = fallback"
    by (auto simp: analysisResult_def)
  show ?thesis
  proof (intro conjI impI)
    show "analysisResult js JSON_parse (JStr raw) =
           [(''disease_category'', JStr ''General Health Concern''),
            (''severity'', JStr ''MODERATE''),
            (''recommendation'', JStr ''Consult a doctor''),
            (''reason'', JStr ''Unable to analyze symptoms accurately. Please seek professional medical evaluation.''),
            (''safe_guidance'', JStr ''Please consult a healthcare provider for proper assessment and guidance.'')]"
      using r by (simp add: fallback_def)
  next
    assume h: "\<not> symptoms_missing js (Some symptoms)
              \<and> matchedRule js (safety_rules e) (fullText js symptoms (text_or_default prescriptionText)) = None
              \<and> ai e (language_or_default lang) symptoms (text_or_default prescriptionText)
                   = Content (Some (JStr raw))
              \<and> raw \<noteq> []"
    then show "fst (analyze_symptoms js e JSON_parse (Some symptoms) lang prescriptionText) =
                    Response 200 (JObj fallback)"
      using analysed_response [of js symptoms e prescriptionText lang "JStr raw" JSON_parse] r by simp
  qed
qed

lemma incomplete_run:
  "example_parse (cleanContent ascii_engine (''Here is the result: '' @ incomplete_text)) = Some (JObj incomplete_object)
   \<and> ''severity'' \<in> {''disease_category'', ''severity'', ''recommendation''}
   \<and> \<not> truthy (map_of incomplete_object ''severity'')"
  by code_simp

lemma incomplete_request:
  "\<not> symptoms_missing ascii_engine (Some ''mild headache'')
   \<and> matchedRule ascii_engine (safety_rules (example_env (Some [chest_pain_rule])
          (Content (Some (JStr (''Here is the result: '' @ incomplete_text))))))
        (fullText ascii_engine ''mild headache'' (text_or_default None)) = None
   \<and> ai (example_env (Some [chest_pain_rule])
          (Content (Some (JStr (''Here is the result: '' @ incomplete_text)))))
        (language_or_default None) ''mild headache'' (text_or_default None)
       = Content (Some (JStr (''Here is the result: '' @ incomplete_text)))
   \<and> ''Here is the result: '' @ incomplete_text \<noteq> []"
  by code_simp

theorem fallback_on_unusable_output_witness:
  "analysisResult ascii_engine example_parse (JStr (''Here is the result: '' @ incomplete_text)) = fallback
   \<and> fst (analyze_symptoms ascii_engine
        (example_env (Some [chest_pain_rule])
           (Content (Some (JStr (''Here is the result: '' @ incomplete_text)))))
        example_parse (Some ''mild headache'') None None) = Response 200 (JObj fallback)"
proof -
  have "\<exists>a k. example_parse (cleanContent ascii_engine (''Here is the result: '' @ incomplete_text)) = Some (JObj a)
          \<and> k \<in> {''disease_category'', ''severity'', ''recommendation''}
          \<and> \<not> truthy (map_of a k)"
    using incomplete_run by blast
  then show ?thesis
    using fallback_on_unusable_output [of example_parse ascii_engine
        "''Here is the result: '' @ incomplete_text"
        "''mild headache''"
        "example_env (Some [chest_pain_rule])
           (Content (Some (JStr (''Here is the result: '' @ incomplete_text))))" None None]
      incomplete_request
    by (simp add: fallback_def)
qed

lemma normalize_severity_string:
  assumes "map_of a ''severity'' = Some (JStr sev)"
  shows "\<exists>a1. normalize_severity js a = Inr a1
           \<and> map_of a1 ''severity'' =
               Some (JStr (if toUpperCase js sev \<in> set validSeverities then toUpperCase js sev
                           else ''MODERATE''))
           \<and> (\<forall>k. k \<noteq> ''severity'' \<longrightarrow> map_of a1 k = map_of a k)"
  using assms by (simp add: normalize_severity_def Let_def update_conv')

lemma normalize_severity_Inr:
  assumes "normalize_severity js a = Inr a1"
  shows "\<exists>sev. map_of a ''severity'' = Some (JStr sev)"
  using assms by (auto simp: normalize_severity_def split: option.splits json.splits)

lemma critical_check_other:
  "k \<noteq> ''recommendation'' \<Longrightarrow> k \<noteq> ''safe_guidance'' \<Longrightarrow> map_of (critical_check a) k = map_of a k"
  by (simp add: critical_check_def update_conv')

lemma critical_check_safe_guidance:
  "map_of (critical_check a) ''safe_guidance'' = map_of a ''safe_guidance''
   \<or> map_of (critical_check a) ''safe_guidance'' = Some JNull"
  by (simp add: critical_check_def update_conv')

lemma medication_filter_Inr:
  assumes "\<not> truthy (map_of a ''safe_guidance'') \<or> (\<exists>g. map_of a ''safe_guidance'' = Some (JStr g))"
  shows "\<exists>b. medication_filter js a = Inr b"
  using assms by (auto simp: medication_filter_def)

lemma validate_parsed_severity:
  assumes "validate_parsed js v = Inr r"
  shows "\<exists>a sev. v = JObj a \<and> map_of a ''severity'' = Some (JStr sev)
           \<and> map_of r ''severity'' =
               Some (JStr (if toUpperCase js sev \<in> set validSeverities then toUpperCase js sev
                           else ''MODERATE''))"
proof -
  from assms obtain a a1 where p: "v = JObj a" and n: "normalize_severity js a = Inr a1"
    and m: "medication_filter js (critical_check a1) = Inr r"
    by (auto simp: validate_parsed_def split: json.splits if_splits sum.splits)
  from normalize_severity_Inr [OF n] obtain sev where s: "map_of a ''severity'' = Some (JStr sev)"
    by blast
  have "map_of r ''severity'' = map_of a1 ''severity''"
    using medication_filter_other [OF m, of "''severity''"]
    by (simp add: map_of_critical_check_severity)
  then show ?thesis
    using normalize_severity_string [OF s, of js] n p s by auto
qed

lemma analysisResult_severity_valid:
  "\<exists>v \<in> set validSeverities. map_of (analysisResult js P c) ''severity'' = Some (JStr v)"
proof (cases "validate js P c")
  case (Inl e)
  then show ?thesis by (simp add: analysisResult_def fallback_def validSeverities_def)
next
  case (Inr r)
  then obtain v where "validate_parsed js v = Inr r"
    by (auto simp: validate_def split: json.splits option.splits)
  from validate_parsed_severity [OF this] obtain sev where
    s: "map_of r ''severity'' =
          Some (JStr (if toUpperCase js sev \<in> set validSeverities then toUpperCase js sev
                      else ''MODERATE''))"
    by blast
  have "''MODERATE'' \<in> set validSeverities"
    by (simp add: validSeverities_def)
  then have "(if toUpperCase js sev \<in> set validSeverities then toUpperCase js sev else ''MODERATE'')
               \<in> set validSeverities"
    by simp
  then show ?thesis
    using s Inr by (simp add: analysisResult_def)
qed

text \<open>
  C6, as the code has it. Let the located text parse to an object that passes the
  required-field check. Then the request does not fail: the handler answers with status
  200 and a result whose severity is one of LOW, MODERATE, HIGH and CRITICAL. When the
  severity is a string, the normalisation step upper-cases it and puts MODERATE in its
  place if the upper-cased value is none of the four; when moreover safe_guidance is a
  string or falsy (absent, null, empty), the validator throws nothing, and its result has
  that severity and the model's disease_category and reason.
\<close>

theorem severity_is_normalized:
  assumes "JSON_parse (cleanContent js raw) = Some (JObj a)"
    and "required_fields_present a"
  shows "(\<exists>v \<in> set validSeverities.
            map_of (analysisResult js JSON_parse (JStr raw)) ''severity'' = Some (JStr v))
         \<and> (\<not> symptoms_missing js (Some symptoms)
              \<and> matchedRule js (safety_rules e) (fullText js symptoms (text_or_default prescriptionText)) = None
              \<and> ai e (language_or_default lang) symptoms (text_or_default prescriptionText)
                   = Content (Some (JStr raw))
              \<and> raw \<noteq> []
              \<longrightarrow> fst (analyze_symptoms js e JSON_parse (Some symptoms) lang prescriptionText) =
                    Response 200 (JObj (analysisResult js JSON_parse (JStr raw))))
         \<and> (\<forall>sev. map_of a ''severity'' = Some (JStr sev) \<longrightarrow>
               (\<exists>a1. normalize_severity js a = Inr a1
                  \<and> map_of a1 ''severity'' =
                      Some (JStr (if toUpperCase js sev \<in> set validSeverities then toUpperCase js sev
                                  else ''MODERATE''))))
         \<and> (\<forall>sev. map_of a ''severity'' = Some (JStr sev)
               \<and> (\<not> truthy (map_of a ''safe_guidance'')
                    \<or> (\<exists>g. map_of a ''safe_guidance'' = Some (JStr g))) \<longrightarrow>
               validate js JSON_parse (JStr raw) = Inr (analysisResult js JSON_parse (JStr raw))
               \<and> map_of (analysisResult js JSON_parse (JStr raw)) ''severity'' =
                   Some (JStr (if toUpperCase js sev \<in> set validSeverities then toUpperCase js sev
                               else ''MODERATE''))
               \<and> map_of (analysisResult js JSON_parse (JStr raw)) ''disease_category'' =
                   map_of a ''disease_category''
               \<and> map_of (analysisResult js JSON_parse (JStr raw)) ''reason'' = map_of a ''reason'')"
proof (intro conjI allI impI)
  show "\<exists>v \<in> set validSeverities.
          map_of (analysisResult js JSON_parse (JStr raw)) ''severity'' = Some (JStr v)"
    by (rule analysisResult_severity_valid)
next
  assume "\<not> symptoms_missing js (Some symptoms)
          \<and> matchedRule js (safety_rules e) (fullText js symptoms (text_or_default prescriptionText)) = None
          \<and> ai e (language_or_default lang) symptoms (text_or_default prescriptionText)
               = Content (Some (JStr raw))
          \<and> raw \<noteq> []"
  then show "fst (analyze_symptoms js e JSON_parse (Some symptoms) lang prescriptionText) =
               Response 200 (JObj (analysisResult js JSON_parse (JStr raw)))"
    using analysed_response [of js symptoms e prescriptionText lang "JStr raw" JSON_parse] by simp
next
  fix sev assume "map_of a ''severity'' = Some (JStr sev)"
  from normalize_severity_string [OF this, of js]
  show "\<exists>a1. normalize_severity js a = Inr a1
          \<and> map_of a1 ''severity'' =
              Some (JStr (if toUpperCase js sev \<in> set validSeverities then toUpperCase js sev
                          else ''MODERATE''))"
    by blast
next
  fix sev
  assume h: "map_of a ''severity'' = Some (JStr sev)
             \<and> (\<not> truthy (map_of a ''safe_guidance'')
                  \<or> (\<exists>g. map_of a ''safe_guidance'' = Some (JStr g)))"
  from h normalize_severity_string [of a sev js] obtain a1 where
    n: "normalize_severity js a = Inr a1"
    and o: "\<forall>k. k \<noteq> ''severity'' \<longrightarrow> map_of a1 k = map_of a k"
    by blast
  have "map_of a1 ''safe_guidance'' = map_of a ''safe_guidance''"
    using o by simp
  then have "\<not> truthy (map_of (critical_check a1) ''safe_guidance'')
             \<or> (\<exists>g. map_of (critical_check a1) ''safe_guidance'' = Some (JStr g))"
    using h critical_check_safe_guidance [of a1] by auto
  from medication_filter_Inr [OF this] obtain r where
    m: "medication_filter js (critical_check a1) = Inr r"
    by blast
  have v: "validate js JSON_parse (JStr raw) = Inr r"
    using assms n m by (simp add: validate_def validate_parsed_def)
  then have r: "analysisResult js JSON_parse (JStr raw) = r"
    by (simp add: analysisResult_def)
  have "validate_parsed js (JObj a) = Inr r"
    using assms n m by (simp add: validate_parsed_def)
  from validate_parsed_severity [OF this] h
  have s: "map_of r ''severity'' =
             Some (JStr (if toUpperCase js sev \<in> set validSeverities then toUpperCase js sev
                         else ''MODERATE''))"
    by auto
  have d: "map_of r ''disease_category'' = map_of a ''disease_category''"
    "map_of r ''reason'' = map_of a ''reason''"
    using medication_filter_other [OF m] critical_check_other [of _ a1] o by simp_all
  show "validate js JSON_parse (JStr raw) = Inr (analysisResult js JSON_parse (JStr raw))"
    using v r by simp
  show "map_of (analysisResult js JSON_parse (JStr raw)) ''severity'' =
          Some (JStr (if toUpperCase js sev \<in> set validSeverities then toUpperCase js sev
                      else ''MODERATE''))"
    using s r by simp
  show "map_of (analysisResult js JSON_parse (JStr raw)) ''disease_category'' =
          map_of a ''disease_category''"
    using d r by simp
  show "map_of (analysisResult js JSON_parse (JStr raw)) ''reason'' = map_of a ''reason''"
    using d r by simp
qed

lemma high_run:
  "example_parse (cleanContent ascii_engine high_text) = Some (JObj high_object)
   \<and> required_fields_present high_object
   \<and> map_of high_object ''severity'' = Some (JStr ''high'')
   \<and> map_of high_object ''safe_guidance'' = Some (JStr ''Rest'')
   \<and> toUpperCase ascii_engine ''high'' = ''HIGH''
   \<and> ''HIGH'' \<in> set validSeverities"
  by code_simp

lemma urgent_run:
  "example_parse (cleanContent ascii_engine urgent_text) = Some (JObj urgent_object)
   \<and> required_fields_present urgent_object
   \<and> map_of urgent_object ''severity'' = Some (JStr ''urgent'')
   \<and> map_of urgent_object ''safe_guidance'' = Some (JStr ''Take Antibiotics'')
   \<and> toUpperCase ascii_engine ''urgent'' \<notin> set validSeverities"
  by code_simp

theorem severity_is_normalized_witness:
  "map_of (analysisResult ascii_engine example_parse (JStr high_text)) ''severity''
     = Some (JStr ''HIGH'')
   \<and> map_of (analysisResult ascii_engine example_parse (JStr urgent_text)) ''severity''
       = Some (JStr ''MODERATE'')
   \<and> map_of (analysisResult ascii_engine example_parse (JStr urgent_text)) ''disease_category''
       = Some (JStr ''Fever'')"
proof -
  have "map_of (analysisResult ascii_engine example_parse (JStr high_text)) ''severity''
          = Some (JStr ''HIGH'')"
    using severity_is_normalized [of example_parse ascii_engine high_text high_object] high_run
    by auto
  moreover have "map_of (analysisResult ascii_engine example_parse (JStr urgent_text)) ''severity''
       = Some (JStr ''MODERATE'')
     \<and> map_of (analysisResult ascii_engine example_parse (JStr urgent_text)) ''disease_category''
       = Some (JStr ''Fever'')"
    using severity_is_normalized [of example_parse ascii_engine urgent_text urgent_object] urgent_run
    by (auto simp: urgent_object_def)
  ultimately show ?thesis by simp
qed

text \<open>
  C6 as stated fails. An object with severity \<open>low\<close> and a list as safe_guidance passes
  the required-field check, and so does one with the number 1 as severity; for both the
  validator throws, and the answer is the fallback result with severity MODERATE in
  place of the model's disease_category and severity.
\<close>

theorem severity_not_normalized_counterexample:
  "example_parse (cleanContent ascii_engine list_guidance_text) = Some (JObj list_guidance_object)
   \<and> required_fields_present list_guidance_object
   \<and> map_of list_guidance_object ''severity'' = Some (JStr ''low'')
   \<and> fst (analyze_symptoms ascii_engine
         (example_env (Some [chest_pain_rule]) (Content (Some (JStr list_guidance_text))))
         example_parse (Some ''runny nose'') None None) = Response 200 (JObj fallback)
   \<and> map_of fallback ''severity'' = Some (JStr ''MODERATE'')
   \<and> map_of fallback ''disease_category'' = Some (JStr ''General Health Concern'')
   \<and> example_parse (cleanContent ascii_engine number_severity_text)
       = Some (JObj number_severity_object)
   \<and> required_fields_present number_severity_object
   \<and> fst (analyze_symptoms ascii_engine
         (example_env (Some [chest_pain_rule]) (Content (Some (JStr number_severity_text))))
         example_parse (Some ''runny nose'') None None) = Response 200 (JObj fallback)"
  by code_simp

section \<open>The medication safety filter\<close>
































section \<open>The dosage guard of medication-info\<close>













end
